theory Spec2Isabelle
  imports Complex_Main
begin

section \<open>Orchestration layer of the Megatron CLIP model\<close>

text \<open>
  A shallow embedding of the orchestration code of
  \<^verbatim>\<open>nemo/collections/multimodal/models/clip/megatron_clip_models.py\<close>
  (class \<^verbatim>\<open>MegatronCLIPModel\<close>): the constructor's configuration checks, the schedule
  selector, batch partitioning, the gradient synchronisation of the training step, the
  validation metric and the checkpoint hooks.

  Python exceptions are values of \<open>py_error\<close>; a function that can raise returns
  \<open>py_error + 'a\<close> with \<open>Inl\<close> for the exception. Tensors are lists of numbers; floating
  point numbers are modelled as exact reals, so rounding is outside this development.
\<close>

subsection \<open>Exceptions and configuration\<close>

datatype py_error =
    ImportError
  | ValueError string
  | NotImplementedError string
  | KeyError string
  | IndexError
  | AttributeError string
  | TypeError
  | RuntimeError string
  | ZeroDivisionError

text \<open>
  The options of \<^verbatim>\<open>cfg\<close> (an OmegaConf dictionary). An option the code reads with
  \<^verbatim>\<open>cfg.get(key, default)\<close> is an \<open>option\<close> field, \<open>None\<close> standing for an absent (or
  null) entry; \<open>cfg_get\<close> is the lookup with its default.
\<close>

record config =
  pipeline_model_parallel_size :: "int option"
  virtual_pipeline_model_parallel_size :: "int option"
  tensor_model_parallel_size :: "int option"
  sequence_parallel :: "bool option"
  megatron_amp_O2 :: "bool option"
  global_batch_size :: int
  micro_batch_size :: int

definition cfg_get :: "'a option \<Rightarrow> 'a \<Rightarrow> 'a" where
  "cfg_get v d = (case v of None \<Rightarrow> d | Some x \<Rightarrow> x)"

text \<open>Python truthiness of an optional integer: \<^verbatim>\<open>None\<close> and \<^verbatim>\<open>0\<close> are false.\<close>

definition truthy :: "int option \<Rightarrow> bool" where
  "truthy v = (case v of None \<Rightarrow> False | Some n \<Rightarrow> n \<noteq> 0)"

subsection \<open>Parameters, modules and the model\<close>

type_synonym tensor = "real list"

text \<open>
  A parameter with the attributes the orchestration code reads:
  \<^verbatim>\<open>getattr(param, 'sequence_parallel_enabled', False)\<close> (an absent attribute is \<open>None\<close>),
  \<^verbatim>\<open>param.data\<close>, \<^verbatim>\<open>param.grad\<close> and \<^verbatim>\<open>param.main_grad\<close>. A gradient is a reference to
  a buffer (an address of the gradient store below), since the code writes into gradient
  buffers in place; an absent gradient is \<open>None\<close>.
\<close>

type_synonym addr = nat

record param =
  sequence_parallel_enabled :: "bool option"
  data :: tensor
  grad :: "addr option"
  main_grad :: "addr option"

type_synonym named_params = "(string \<times> param) list"

text \<open>
  A module is a bare \<^verbatim>\<open>CLIPModel\<close> or one wrapped by \<^verbatim>\<open>Float16Module\<close>; only the wrapper
  has the attribute \<^verbatim>\<open>.module\<close>. \<^verbatim>\<open>self.model\<close> is a single module or a list of virtual
  stage modules (\<^verbatim>\<open>isinstance(self.model, list)\<close>).
\<close>

datatype module = CLIPModel named_params | Float16Module named_params

datatype model = Single module | Stages "module list"

fun named_parameters :: "module \<Rightarrow> named_params" where
  "named_parameters (CLIPModel ps) = ps"
| "named_parameters (Float16Module ps) = ps"

fun dot_module :: "module \<Rightarrow> py_error + module" where
  "dot_module (Float16Module ps) = Inr (CLIPModel ps)"
| "dot_module (CLIPModel ps) = Inl (AttributeError ''module'')"

datatype precision_val = PrecInt int | PrecStr string

datatype dtype = torch_float | torch_half | torch_bfloat16

record trainer =
  accumulate_grad_batches :: int
  trainer_precision :: precision_val

text \<open>The fields of \<^verbatim>\<open>self\<close> that the orchestration code uses.\<close>

record clip_model =
  cfg :: config
  megatron_amp_o2 :: bool
  with_distributed_adam :: bool
  model :: model
  autocast_dtype :: dtype

subsection \<open>The constructor\<close>

text \<open>
  \<^verbatim>\<open>MegatronCLIPModel.__init__\<close>. The base class constructor, \<^verbatim>\<open>build_model\<close> and
  \<^verbatim>\<open>Float16Module\<close> are library code: the base constructor is assumed to return, having set
  \<^verbatim>\<open>with_distributed_adam\<close> (a parameter here), \<^verbatim>\<open>build_model\<close> returns the list
  \<open>built\<close>, and the \<^verbatim>\<open>Float16Module\<close> wrapper is assumed to accept the module. The checks
  come in the order of the source.
\<close>

definition validate_trainer :: "trainer \<Rightarrow> py_error + unit" where
  "validate_trainer tr =
     (if accumulate_grad_batches tr > 1
      then Inl (ValueError ''Gradient accumulation is done within training_step. trainer.accumulate_grad_batches must equal 1'')
      else Inr ())"

fun to_float16 :: "module \<Rightarrow> module" where
  "to_float16 m = Float16Module (named_parameters m)"

definition select_autocast :: "precision_val \<Rightarrow> py_error + dtype" where
  "select_autocast p =
     (if p = PrecInt 32 then Inr torch_float
      else if p = PrecInt 16 then Inr torch_half
      else if p = PrecStr ''bf16'' then Inr torch_bfloat16
      else Inl (ValueError ''precision must be in [32, 16, \"bf16\"]''))"

text \<open>
  The model after \<^verbatim>\<open>build_model\<close>: the list itself when the virtual pipeline size is set,
  its first element otherwise; then the conversion under \<^verbatim>\<open>megatron_amp_O2\<close>.
\<close>

definition initial_model :: "config \<Rightarrow> module list \<Rightarrow> py_error + model" where
  "initial_model c built =
     (if virtual_pipeline_model_parallel_size c = None
      then (case built of [] \<Rightarrow> Inl IndexError | m # _ \<Rightarrow> Inr (Single m))
      else Inr (Stages built))"

definition convert_model :: "bool \<Rightarrow> model \<Rightarrow> model" where
  "convert_model o2 m0 =
     (if o2
      then (case m0 of
              Stages ms \<Rightarrow> Stages (map to_float16 ms)
            | Single m \<Rightarrow> Single (to_float16 m))
      else m0)"

definition init :: "bool \<Rightarrow> bool \<Rightarrow> module list \<Rightarrow> config \<Rightarrow> trainer \<Rightarrow> py_error + clip_model" where
  "init have_apex wda built c tr =
     (if \<not> have_apex then Inl ImportError
      else
        (case validate_trainer tr of
           Inl e \<Rightarrow> Inl e
         | Inr _ \<Rightarrow>
             (let o2 = cfg_get (megatron_amp_O2 c) False in
              (if \<not> o2 \<and> truthy (virtual_pipeline_model_parallel_size c)
               then Inl (ValueError ''Virtual pipeline model parallel is only supported when using megatron_amp_O2'')
               else
                 (case initial_model c built of
                    Inl e \<Rightarrow> Inl e
                  | Inr m0 \<Rightarrow>
                      (case select_autocast (trainer_precision tr) of
                         Inl e \<Rightarrow> Inl e
                       | Inr dt \<Rightarrow>
                           Inr \<lparr>cfg = c, megatron_amp_o2 = o2, with_distributed_adam = wda,
                                model = convert_model o2 m0, autocast_dtype = dt\<rparr>))))))"

subsection \<open>The schedule selector\<close>

datatype fwd_bwd_function =
    forward_backward_no_pipelining
  | forward_backward_pipelining_without_interleaving
  | forward_backward_pipelining_with_interleaving

text \<open>\<^verbatim>\<open>MegatronCLIPModel._get_fwd_bwd_function\<close>.\<close>

definition get_fwd_bwd_function :: "clip_model \<Rightarrow> fwd_bwd_function" where
  "get_fwd_bwd_function self =
     (if cfg_get (pipeline_model_parallel_size (cfg self)) 1 > 1
      then (if virtual_pipeline_model_parallel_size (cfg self) \<noteq> None
            then forward_backward_pipelining_with_interleaving
            else forward_backward_pipelining_without_interleaving)
      else forward_backward_no_pipelining)"

subsection \<open>The parallel topology\<close>

text \<open>
  \<^verbatim>\<open>apex.transformer.parallel_state\<close> is a library: its queries are inputs of the model.
  \<open>pipeline_first_stage ps iv\<close> is the answer of
  \<^verbatim>\<open>is_pipeline_first_stage(ignore_virtual=iv)\<close> on this rank, and likewise for the last
  stage.
\<close>

record parallel_state =
  pipeline_model_parallel_world_size :: int
  pipeline_first_stage :: "bool \<Rightarrow> bool"
  pipeline_last_stage :: "bool \<Rightarrow> bool"
  data_parallel_world_size :: int

subsection \<open>Batch partitioning\<close>

text \<open>
  A batch tensor is the list of its rows, so \<^verbatim>\<open>shape[0]\<close> is its length; the global batch
  is a dictionary of named batch tensors.
\<close>

type_synonym batch_tensor = "tensor list"

type_synonym global_batch = "string \<rightharpoonup> batch_tensor"

text \<open>
  \<^verbatim>\<open>MegatronCLIPModel.process_global_batch(global_batch, global_batch_size=None)\<close>.
  The branch that padded an undersized batch is commented out in the source: the function
  raises there.
\<close>

definition process_global_batch ::
  "parallel_state \<Rightarrow> global_batch \<Rightarrow> int option \<Rightarrow> py_error + batch_tensor list" where
  "process_global_batch ps gb gbs =
     (case gb ''images'' of
        None \<Rightarrow> Inl (KeyError ''images'')
      | Some images \<Rightarrow>
          (case gb ''captions'' of
             None \<Rightarrow> Inl (KeyError ''captions'')
           | Some captions \<Rightarrow>
               (case (case gbs of
                        None \<Rightarrow> Inr None
                      | Some g \<Rightarrow>
                          if data_parallel_world_size ps = 0 then Inl ZeroDivisionError
                          else Inr (Some (g div data_parallel_world_size ps))) of
                  Inl e \<Rightarrow> Inl e
                | Inr expected_batch_size \<Rightarrow>
                    let current_batch_size = int (length images) in
                    (case expected_batch_size of
                       None \<Rightarrow> Inr [images, captions]
                     | Some ex \<Rightarrow>
                         if ex > current_batch_size
                         then Inl (NotImplementedError ''Please turn on drop_last.'')
                         else Inr [images, captions]))))"

text \<open>
  The start of \<^verbatim>\<open>training_step\<close>: the batch handed to the schedule. No expected size is
  passed to \<open>process_global_batch\<close>.
\<close>

definition training_batch_for_pipeline ::
  "parallel_state \<Rightarrow> global_batch \<Rightarrow> py_error + batch_tensor list option" where
  "training_batch_for_pipeline ps batch =
     (if pipeline_first_stage ps True \<or> pipeline_last_stage ps True
      then (case process_global_batch ps batch None of
              Inl e \<Rightarrow> Inl e
            | Inr b \<Rightarrow> Inr (Some b))
      else Inr None)"

text \<open>
  The inputs that \<^verbatim>\<open>fwd_output_and_loss_func(batch, model)\<close> passes to the model. Unpacking
  a batch that is not a pair raises \<^verbatim>\<open>ValueError\<close>, indexing \<^verbatim>\<open>None\<close> raises
  \<^verbatim>\<open>TypeError\<close>.
\<close>

definition fwd_output_and_loss_func_inputs ::
  "parallel_state \<Rightarrow> batch_tensor list option \<Rightarrow>
     py_error + (batch_tensor option \<times> batch_tensor option)" where
  "fwd_output_and_loss_func_inputs ps batch =
     (if pipeline_model_parallel_world_size ps = 1
      then (case batch of
              None \<Rightarrow> Inl TypeError
            | Some [images, captions] \<Rightarrow> Inr (Some images, Some captions)
            | Some _ \<Rightarrow> Inl (ValueError ''unpack''))
      else if pipeline_first_stage ps False
      then (case batch of
              None \<Rightarrow> Inl TypeError
            | Some b \<Rightarrow>
                if length b < 2 then Inl IndexError
                else Inr (Some (b ! 0), Some (b ! 1)))
      else Inr (None, None))"

subsection \<open>The training step\<close>

text \<open>
  The calls of \<^verbatim>\<open>training_step\<close> that touch gradients or communicate, in the order in
  which the source makes them. The schedule, the optimizer and the collectives are library
  code, so a call is an event of the trace; logging is left out. The schedule is assumed to
  return.
\<close>

datatype sync_context_handler =
    optimizer_no_sync_greedy_grad_copy bool
  | optimizer_no_sync

datatype action =
    ZeroGrad
  | FwdBwd fwd_bwd_function "batch_tensor list option" bool "sync_context_handler option"
  | AllreduceSequenceParallelGradients
  | AllreduceMainGrads
  | AllreduceGradients
  | BroadcastLoss

definition custom_sync_context_handler :: "clip_model \<Rightarrow> sync_context_handler option" where
  "custom_sync_context_handler self =
     (if with_distributed_adam self
      then (if megatron_amp_o2 self
            then Some (optimizer_no_sync_greedy_grad_copy True)
            else Some (optimizer_no_sync_greedy_grad_copy False))
      else (if megatron_amp_o2 self \<and> \<not> cfg_get (sequence_parallel (cfg self)) False
            then Some optimizer_no_sync
            else None))"

definition training_step ::
  "clip_model \<Rightarrow> parallel_state \<Rightarrow> global_batch \<Rightarrow> py_error + action list" where
  "training_step self ps batch =
     (case training_batch_for_pipeline ps batch of
        Inl e \<Rightarrow> Inl e
      | Inr batch_for_pipeline \<Rightarrow>
          Inr ([ZeroGrad,
                FwdBwd (get_fwd_bwd_function self) batch_for_pipeline False
                  (custom_sync_context_handler self)]
               @ (if cfg_get (tensor_model_parallel_size (cfg self)) 1 > 1
                     \<and> cfg_get (sequence_parallel (cfg self)) False
                  then [AllreduceSequenceParallelGradients] else [])
               @ (if with_distributed_adam self then []
                  else if megatron_amp_o2 self then [AllreduceMainGrads]
                  else [AllreduceGradients])
               @ [BroadcastLoss]))"

subsection \<open>The sequence-parallel gradient all-reduce\<close>






fun unflatten_dense_tensors :: "tensor \<Rightarrow> tensor list \<Rightarrow> tensor list" where
  "unflatten_dense_tensors flat [] = []"
| "unflatten_dense_tensors flat (t # ts) =
     take (length t) flat # unflatten_dense_tensors (drop (length t) flat) ts"





subsection \<open>Validation\<close>



text \<open>
  A numpy float: a finite value, or \<^verbatim>\<open>nan\<close>/\<^verbatim>\<open>inf\<close> (numpy divides by zero with a warning,
  not an exception).
\<close>

datatype np_float = Finite real | NonFinite

text \<open>The slices \<^verbatim>\<open>a[0::2]\<close> (\<open>stride2 a\<close>) and \<^verbatim>\<open>a[1::2]\<close> (\<open>stride2 (drop 1 a)\<close>).\<close>

fun stride2 :: "'a list \<Rightarrow> 'a list" where
  "stride2 [] = []"
| "stride2 [x] = [x]"
| "stride2 (x # y # xs) = x # stride2 xs"

definition np_dot :: "tensor \<Rightarrow> tensor \<Rightarrow> py_error + real" where
  "np_dot a b =
     (if length a \<noteq> length b then Inl (ValueError ''shapes not aligned'')
      else Inr (sum_list (map2 (*) a b)))"

text \<open>
  The loop of \<^verbatim>\<open>_get_average_metric(metric_outputs)\<close> with its two accumulators
  \<open>(total_num_samples, total_metric)\<close>; an element of \<open>metric_outputs\<close> is given as the
  flat array \<^verbatim>\<open>np.array(metric_with_batch_size).flatten()\<close>.
\<close>

fun average_loop :: "tensor list \<Rightarrow> real \<times> real \<Rightarrow> py_error + (real \<times> real)" where
  "average_loop [] acc = Inr acc"
| "average_loop (metric_with_batch_size_array # rest) (total_num_samples, total_metric) =
     (let batch_metrices = stride2 metric_with_batch_size_array;
          batch_sizes = stride2 (drop 1 metric_with_batch_size_array)
      in case np_dot batch_metrices batch_sizes of
           Inl e \<Rightarrow> Inl e
         | Inr d \<Rightarrow>
             average_loop rest (total_num_samples + sum_list batch_sizes, total_metric + d))"

text \<open>
  The final division: with no element both totals are still the Python integers \<open>0\<close>, and
  the division raises; otherwise they are numpy floats.
\<close>

definition get_average_metric :: "tensor list \<Rightarrow> py_error + np_float" where
  "get_average_metric metric_outputs =
     (case average_loop metric_outputs (0, 0) of
        Inl e \<Rightarrow> Inl e
      | Inr (total_num_samples, total_metric) \<Rightarrow>
          if metric_outputs = [] then Inl ZeroDivisionError
          else if total_num_samples = 0 then Inr NonFinite
          else Inr (Finite (total_metric / total_num_samples)))"

text \<open>
  The metric of \<^verbatim>\<open>validation_epoch_end(outputs)\<close> on a rank of the last stage (the zero-shot
  evaluation is left out): \<^verbatim>\<open>loss_outputs = [output[0] for output in outputs]\<close> keeps the
  first pair of every step's output.
\<close>

fun first_of_each :: "'a list list \<Rightarrow> py_error + 'a list" where
  "first_of_each [] = Inr []"
| "first_of_each ([] # _) = Inl IndexError"
| "first_of_each ((x # _) # rest) =
     (case first_of_each rest of Inl e \<Rightarrow> Inl e | Inr xs \<Rightarrow> Inr (x # xs))"

definition validation_epoch_end ::
  "parallel_state \<Rightarrow> tensor list list \<Rightarrow> py_error + np_float option" where
  "validation_epoch_end ps outputs =
     (if outputs = [] then Inr None
      else if pipeline_last_stage ps False
      then (case first_of_each outputs of
              Inl e \<Rightarrow> Inl e
            | Inr loss_outputs \<Rightarrow>
                (case get_average_metric loss_outputs of
                   Inl e \<Rightarrow> Inl e
                 | Inr avg \<Rightarrow> Inr (Some avg)))
      else Inr (Some (Finite 0)))"

subsection \<open>Checkpoint hooks\<close>

text \<open>
  A state dictionary lists parameter names with their values; the checkpoint is a
  dictionary from keys to state dictionaries. The key of stage \<open>i\<close> is the Python string
  \<^verbatim>\<open>f'model{i}'\<close>, with \<open>i\<close> in decimal.
\<close>

type_synonym state_dict = "(string \<times> tensor) list"

type_synonym checkpoint = "string \<rightharpoonup> state_dict"

definition digit_char :: "nat \<Rightarrow> char" where
  "digit_char d = ''0123456789'' ! d"

fun str_of_nat :: "nat \<Rightarrow> string" where
  "str_of_nat n =
     (if n < 10 then [digit_char n]
      else str_of_nat (n div 10) @ [digit_char (n mod 10)])"

declare str_of_nat.simps [simp del]

definition model_key :: "nat \<Rightarrow> string" where
  "model_key i = ''model'' @ str_of_nat i"

text \<open>
  \<^verbatim>\<open>torch.nn.Module.load_state_dict(state_dict, strict)\<close>, by its contract on keys: in
  strict mode the keys of the dictionary must be the names of the module's parameters,
  a missing or an unexpected key is an error; the values of the keys present are copied
  into the parameters.
\<close>

definition load_state_dict :: "named_params \<Rightarrow> state_dict \<Rightarrow> bool \<Rightarrow> py_error + named_params" where
  "load_state_dict ps sd strict =
     (if strict \<and> set (map fst sd) \<noteq> set (map fst ps)
      then Inl (RuntimeError ''Error(s) in loading state_dict'')
      else Inr (map (\<lambda>(k, p). (k, case map_of sd k of None \<Rightarrow> p | Some t \<Rightarrow> p\<lparr>data := t\<rparr>)) ps))"

text \<open>
  The hooks run in a state made of \<^verbatim>\<open>self\<close> and the active virtual pipeline rank, which
  \<^verbatim>\<open>parallel_state.set_virtual_pipeline_model_parallel_rank\<close> sets. A hook returns the
  exception it raised, if any, with the state it leaves behind.
  \<^verbatim>\<open>state_dict_for_save_checkpoint\<close> belongs to the module class: it is the parameter
  \<open>sd_for_save\<close>, given the active rank and the module.
\<close>

fun save_loop ::
  "(nat option \<Rightarrow> module \<Rightarrow> state_dict) \<Rightarrow> nat \<Rightarrow> module list \<Rightarrow> checkpoint \<Rightarrow> nat option \<Rightarrow>
     py_error option \<times> checkpoint \<times> nat option" where
  "save_loop sd_for_save i [] ck vr = (None, ck, vr)"
| "save_loop sd_for_save i (m # ms) ck vr =
     (case dot_module m of
        Inl e \<Rightarrow> (Some e, ck, Some i)
      | Inr inner \<Rightarrow>
          save_loop sd_for_save (Suc i) ms
            (ck(model_key i \<mapsto> sd_for_save (Some i) inner)) (Some i))"

definition on_save_checkpoint ::
  "(nat option \<Rightarrow> module \<Rightarrow> state_dict) \<Rightarrow> clip_model \<Rightarrow> nat option \<Rightarrow> checkpoint \<Rightarrow>
     py_error option \<times> checkpoint \<times> nat option" where
  "on_save_checkpoint sd_for_save self vr ck =
     (case model self of
        Stages ms \<Rightarrow>
          (case save_loop sd_for_save 0 ms ck vr of
             (None, ck', _) \<Rightarrow> (None, ck', Some 0)
           | (Some e, ck', vr') \<Rightarrow> (Some e, ck', vr'))
      | Single _ \<Rightarrow> (None, ck, vr))"

fun load_loop ::
  "checkpoint \<Rightarrow> nat \<Rightarrow> module list \<Rightarrow> nat option \<Rightarrow>
     py_error option \<times> module list \<times> nat option" where
  "load_loop ck i [] vr = (None, [], vr)"
| "load_loop ck i (m # ms) vr =
     (case dot_module m of
        Inl e \<Rightarrow> (Some e, m # ms, Some i)
      | Inr inner \<Rightarrow>
          (case ck (model_key i) of
             None \<Rightarrow> (Some (KeyError (model_key i)), m # ms, Some i)
           | Some sd \<Rightarrow>
               (case load_state_dict (named_parameters inner) sd True of
                  Inl e \<Rightarrow> (Some e, m # ms, Some i)
                | Inr ps' \<Rightarrow>
                    (case load_loop ck (Suc i) ms (Some i) of
                       (e, ms', vr') \<Rightarrow> (e, Float16Module ps' # ms', vr')))))"

definition on_load_checkpoint ::
  "clip_model \<Rightarrow> nat option \<Rightarrow> checkpoint \<Rightarrow> py_error option \<times> clip_model \<times> nat option" where
  "on_load_checkpoint self vr ck =
     (case model self of
        Stages ms \<Rightarrow>
          (case load_loop ck 0 ms vr of
             (None, ms', _) \<Rightarrow> (None, self\<lparr>model := Stages ms'\<rparr>, Some 0)
           | (Some e, ms', vr') \<Rightarrow> (Some e, self\<lparr>model := Stages ms'\<rparr>, vr'))
      | Single _ \<Rightarrow> (None, self, vr))"

subsection \<open>Example configurations, ranks and batches\<close>

text \<open>Concrete inputs at which the theorems below are instantiated.\<close>

definition example_cfg :: "int option \<Rightarrow> int option \<Rightarrow> int option \<Rightarrow> bool option \<Rightarrow> bool option \<Rightarrow> config" where
  "example_cfg pp vpp tp sp o2 =
     \<lparr>pipeline_model_parallel_size = pp,
      virtual_pipeline_model_parallel_size = vpp,
      tensor_model_parallel_size = tp,
      sequence_parallel = sp,
      megatron_amp_O2 = o2,
      global_batch_size = 32,
      micro_batch_size = 8\<rparr>"

definition example_self :: "config \<Rightarrow> bool \<Rightarrow> bool \<Rightarrow> clip_model" where
  "example_self c wda o2 =
     \<lparr>cfg = c, megatron_amp_o2 = o2, with_distributed_adam = wda,
      model = Single (CLIPModel []), autocast_dtype = torch_float\<rparr>"

definition example_batch :: "nat \<Rightarrow> global_batch" where
  "example_batch n = [''images'' \<mapsto> replicate n [0], ''captions'' \<mapsto> replicate n [1]]"

definition example_rank :: "int \<Rightarrow> bool \<Rightarrow> bool \<Rightarrow> int \<Rightarrow> parallel_state" where
  "example_rank pp is_first is_last dp =
     \<lparr>pipeline_model_parallel_world_size = pp,
      pipeline_first_stage = (\<lambda>_. is_first),
      pipeline_last_stage = (\<lambda>_. is_last),
      data_parallel_world_size = dp\<rparr>"

definition example_trainer :: trainer where
  "example_trainer = \<lparr>accumulate_grad_batches = 1, trainer_precision = PrecInt 32\<rparr>"

definition example_param :: "bool option \<Rightarrow> addr \<Rightarrow> param" where
  "example_param sp a =
     \<lparr>sequence_parallel_enabled = sp, data = [0], grad = None, main_grad = Some a\<rparr>"

definition example_stages :: "module list" where
  "example_stages =
     [Float16Module [(''ln.weight'', example_param (Some True) 0),
                     (''fc.weight'', example_param None 1)],
      Float16Module [(''ln.bias'', example_param (Some True) 2)]]"


definition example_entries :: "(string \<times> state_dict) list" where
  "example_entries =
     [(''model0'', [(''ln.weight'', [7]), (''fc.weight'', [8])]),
      (''model1'', [(''ln.bias'', [9])]),
      (''model2'', [(''ln.bias'', [5])])]"

definition example_checkpoint :: "nat \<Rightarrow> checkpoint" where
  "example_checkpoint n = map_of (take n example_entries)"

definition example_state_dict :: "nat option \<Rightarrow> module \<Rightarrow> state_dict" where
  "example_state_dict vr m = map (\<lambda>(k, p). (k, data p)) (named_parameters m)"

definition example_staged :: clip_model where
  "example_staged =
     \<lparr>cfg = example_cfg (Some 2) (Some 2) None None (Some True),
      megatron_amp_o2 = True, with_distributed_adam = False,
      model = Stages example_stages, autocast_dtype = torch_half\<rparr>"

section \<open>The schedule selector\<close>

text \<open>
  C3. The schedule selector is a function of the configuration alone, with three cases:
  a pipeline size of at most 1 (the default when the option is absent) gives the schedule
  without pipelining; a pipeline size above 1 gives pipelining without interleaving when
  the virtual pipeline size is unset, and pipelining with interleaving when it is set.
  The result depends on these two options only.
\<close>

theorem schedule_selector_three_way:
  "(cfg_get (pipeline_model_parallel_size (cfg self)) 1 \<le> 1
      \<longrightarrow> get_fwd_bwd_function self = forward_backward_no_pipelining)
   \<and> (cfg_get (pipeline_model_parallel_size (cfg self)) 1 > 1
        \<and> virtual_pipeline_model_parallel_size (cfg self) = None
      \<longrightarrow> get_fwd_bwd_function self = forward_backward_pipelining_without_interleaving)
   \<and> (cfg_get (pipeline_model_parallel_size (cfg self)) 1 > 1
        \<and> virtual_pipeline_model_parallel_size (cfg self) \<noteq> None
      \<longrightarrow> get_fwd_bwd_function self = forward_backward_pipelining_with_interleaving)
   \<and> (pipeline_model_parallel_size (cfg self') = pipeline_model_parallel_size (cfg self)
        \<and> virtual_pipeline_model_parallel_size (cfg self')
            = virtual_pipeline_model_parallel_size (cfg self)
      \<longrightarrow> get_fwd_bwd_function self' = get_fwd_bwd_function self)"
  by (simp add: get_fwd_bwd_function_def)

theorem schedule_selector_three_way_witness:
  "get_fwd_bwd_function (example_self (example_cfg None (Some 2) None None None) False True)
     = forward_backward_no_pipelining
   \<and> get_fwd_bwd_function (example_self (example_cfg (Some 1) (Some 2) None None None) False True)
     = forward_backward_no_pipelining
   \<and> get_fwd_bwd_function (example_self (example_cfg (Some 4) None None None None) False False)
     = forward_backward_pipelining_without_interleaving
   \<and> get_fwd_bwd_function (example_self (example_cfg (Some 4) (Some 2) None None None) False True)
     = forward_backward_pipelining_with_interleaving"
proof -
  let ?a = "example_self (example_cfg None (Some 2) None None None) False True"
  let ?b = "example_self (example_cfg (Some 1) (Some 2) None None None) False True"
  let ?c = "example_self (example_cfg (Some 4) None None None None) False False"
  let ?d = "example_self (example_cfg (Some 4) (Some 2) None None None) False True"
  have a: "get_fwd_bwd_function ?a = forward_backward_no_pipelining"
    using schedule_selector_three_way [of ?a ?a]
    by (simp add: example_self_def example_cfg_def cfg_get_def)
  have b: "get_fwd_bwd_function ?b = forward_backward_no_pipelining"
    using schedule_selector_three_way [of ?b ?b]
    by (simp add: example_self_def example_cfg_def cfg_get_def)
  have c: "get_fwd_bwd_function ?c = forward_backward_pipelining_without_interleaving"
    using schedule_selector_three_way [of ?c ?c]
    by (simp add: example_self_def example_cfg_def cfg_get_def)
  have d: "get_fwd_bwd_function ?d = forward_backward_pipelining_with_interleaving"
    using schedule_selector_three_way [of ?d ?d]
    by (simp add: example_self_def example_cfg_def cfg_get_def)
  from a b c d show ?thesis by blast
qed

section \<open>The constructor's check of virtual pipelining\<close>

text \<open>
  With the library present and the trainer valid, a non-zero virtual pipeline size
  without \<^verbatim>\<open>megatron_amp_O2\<close> is refused before the model is built.
\<close>

lemma init_rejects_truthy_virtual_size:
  assumes "have_apex" and "accumulate_grad_batches tr \<le> 1"
    and "virtual_pipeline_model_parallel_size c = Some v" and "v \<noteq> 0"
    and "cfg_get (megatron_amp_O2 c) False = False"
  shows "init have_apex wda built c tr
           = Inl (ValueError ''Virtual pipeline model parallel is only supported when using megatron_amp_O2'')"
  using assms by (simp add: init_def validate_trainer_def truthy_def)

text \<open>
  C4. The claim: whenever the virtual pipeline size is set and \<^verbatim>\<open>megatron_amp_O2\<close> is not
  enabled, the constructor fails with a configuration error. The constructor's guard tests
  the truth value of the option, so it rejects every non-zero size (the lemma above) but
  lets the size \<open>0\<close> through, although the size is set: the constructor returns a model
  whose \<^verbatim>\<open>self.model\<close> is a list of stages, and with a pipeline size of 2 the schedule
  selector, which tests \<^verbatim>\<open>is not None\<close>, chooses pipelining with interleaving.
\<close>

theorem init_accepts_zero_virtual_size_without_O2:
  "init True False [] (example_cfg (Some 2) (Some 0) None None (Some False)) example_trainer
     = Inr \<lparr>cfg = example_cfg (Some 2) (Some 0) None None (Some False),
            megatron_amp_o2 = False, with_distributed_adam = False,
            model = Stages [], autocast_dtype = torch_float\<rparr>
   \<and> get_fwd_bwd_function
        \<lparr>cfg = example_cfg (Some 2) (Some 0) None None (Some False),
         megatron_amp_o2 = False, with_distributed_adam = False,
         model = Stages [], autocast_dtype = torch_float\<rparr>
     = forward_backward_pipelining_with_interleaving"
  by (simp add: init_def validate_trainer_def truthy_def cfg_get_def example_cfg_def
      example_trainer_def initial_model_def convert_model_def select_autocast_def
      get_fwd_bwd_function_def)

section \<open>Gradient synchronisation in the training step\<close>



subsection \<open>The sequence-parallel all-reduce\<close>

text \<open>
  Cutting a buffer of the right length into pieces and concatenating them again gives the
  buffer back, and the pieces have the sizes of the original tensors.
\<close>

lemma length_unflatten_dense_tensors [simp]:
  "length (unflatten_dense_tensors flat ts) = length ts"
  by (induction ts arbitrary: flat) auto











section \<open>Batch partitioning\<close>

text \<open>What \<open>process_global_batch\<close> returns on a batch that holds both tensors.\<close>

lemma process_global_batch_no_expected_size:
  "gb ''images'' = Some images \<Longrightarrow> gb ''captions'' = Some captions \<Longrightarrow>
     process_global_batch ps gb None = Inr [images, captions]"
  by (simp add: process_global_batch_def)








text \<open>
  C5. The claim: in a pipeline deeper than 1 every rank that does not host the first stage
  gets a null placeholder instead of the raw inputs for the schedule. The rank of the last
  stage of a pipeline of depth 2 does not host the first stage, and the training step hands
  its schedule the raw images and captions.
\<close>

theorem last_stage_receives_raw_inputs:
  "pipeline_model_parallel_world_size (example_rank 2 False True 2) > 1
   \<and> \<not> pipeline_first_stage (example_rank 2 False True 2) True
   \<and> training_batch_for_pipeline (example_rank 2 False True 2) (example_batch 2)
       = Inr (Some [[[0], [0]], [[1], [1]]])
   \<and> training_batch_for_pipeline (example_rank 2 False True 2) (example_batch 2) \<noteq> Inr None"
  by (simp add: training_batch_for_pipeline_def process_global_batch_def example_rank_def
      example_batch_def numeral_2_eq_2)

text \<open>
  C5, amended. In a training step a rank that hosts neither the first nor the last
  pipeline stage hands the schedule a null placeholder, and a rank that hosts the first
  or the last stage hands it the raw images and captions. Inside the forward callback of
  a pipeline whose depth is not 1, only a first-stage rank passes the raw inputs to the
  model; every other rank passes null images and captions.
\<close>

theorem pipeline_inputs_by_stage:
  "(\<not> pipeline_first_stage ps True \<and> \<not> pipeline_last_stage ps True \<longrightarrow>
      training_batch_for_pipeline ps batch = Inr None)
   \<and> ((pipeline_first_stage ps True \<or> pipeline_last_stage ps True)
        \<and> batch ''images'' = Some images \<and> batch ''captions'' = Some captions \<longrightarrow>
      training_batch_for_pipeline ps batch = Inr (Some [images, captions]))
   \<and> (pipeline_model_parallel_world_size ps \<noteq> 1 \<and> \<not> pipeline_first_stage ps False \<longrightarrow>
      fwd_output_and_loss_func_inputs ps micro_batch = Inr (None, None))
   \<and> (pipeline_model_parallel_world_size ps \<noteq> 1 \<and> pipeline_first_stage ps False \<longrightarrow>
      fwd_output_and_loss_func_inputs ps (Some [images, captions])
        = Inr (Some images, Some captions))"
  by (simp add: training_batch_for_pipeline_def process_global_batch_no_expected_size
      fwd_output_and_loss_func_inputs_def)

theorem pipeline_inputs_by_stage_witness:
  "training_batch_for_pipeline (example_rank 4 False False 2) (example_batch 2) = Inr None
   \<and> training_batch_for_pipeline (example_rank 4 True False 2) (example_batch 2)
       = Inr (Some [replicate 2 [0], replicate 2 [1]])
   \<and> training_batch_for_pipeline (example_rank 4 False True 2) (example_batch 2)
       = Inr (Some [replicate 2 [0], replicate 2 [1]])
   \<and> fwd_output_and_loss_func_inputs (example_rank 4 False True 2)
        (Some [replicate 2 [0], replicate 2 [1]]) = Inr (None, None)
   \<and> fwd_output_and_loss_func_inputs (example_rank 4 True False 2)
        (Some [replicate 2 [0], replicate 2 [1]])
       = Inr (Some (replicate 2 [0]), Some (replicate 2 [1]))"
proof -
  let ?i = "replicate 2 [0::real]" and ?c = "replicate 2 [1::real]"
  have a: "training_batch_for_pipeline (example_rank 4 False False 2) (example_batch 2) = Inr None"
    using pipeline_inputs_by_stage
      [of "example_rank 4 False False 2" "example_batch 2" ?i ?c "None"]
    by (simp add: example_rank_def)
  have b: "training_batch_for_pipeline (example_rank 4 True False 2) (example_batch 2)
       = Inr (Some [?i, ?c])"
    using pipeline_inputs_by_stage
      [of "example_rank 4 True False 2" "example_batch 2" ?i ?c "None"]
    by (simp add: example_rank_def example_batch_def)
  have c: "training_batch_for_pipeline (example_rank 4 False True 2) (example_batch 2)
       = Inr (Some [?i, ?c])"
    using pipeline_inputs_by_stage
      [of "example_rank 4 False True 2" "example_batch 2" ?i ?c "None"]
    by (simp add: example_rank_def example_batch_def)
  have d: "fwd_output_and_loss_func_inputs (example_rank 4 False True 2) (Some [?i, ?c])
       = Inr (None, None)"
    using pipeline_inputs_by_stage
      [of "example_rank 4 False True 2" "example_batch 2" ?i ?c "Some [?i, ?c]"]
    by (simp add: example_rank_def)
  have e: "fwd_output_and_loss_func_inputs (example_rank 4 True False 2) (Some [?i, ?c])
       = Inr (Some ?i, Some ?c)"
    using pipeline_inputs_by_stage
      [of "example_rank 4 True False 2" "example_batch 2" ?i ?c "None"]
    by (simp add: example_rank_def)
  show ?thesis by (intro conjI a b c d e)
qed

section \<open>The validation metric\<close>




text \<open>
  At the end of a validation epoch the function is applied to the first pair of every
  step's output.
\<close>

lemma validation_epoch_end_metric:
  "outputs \<noteq> [] \<Longrightarrow> pipeline_last_stage ps False \<Longrightarrow>
   first_of_each outputs = Inr loss_outputs \<Longrightarrow>
     validation_epoch_end ps outputs
       = (case get_average_metric loss_outputs of Inl e \<Rightarrow> Inl e | Inr avg \<Rightarrow> Inr (Some avg))"
  by (simp add: validation_epoch_end_def)

section \<open>Checkpoint hooks\<close>

subsection \<open>The keys of the stages\<close>

text \<open>Decimal notation is injective, so different stages have different keys.\<close>

lemma digit_char_inj: "d < 10 \<Longrightarrow> e < 10 \<Longrightarrow> digit_char d = digit_char e \<Longrightarrow> d = e"
proof -
  have dist: "distinct ''0123456789''" by simp
  assume "d < 10" "e < 10" "digit_char d = digit_char e"
  with nth_eq_iff_index_eq [OF dist, of d e] show "d = e"
    by (simp add: digit_char_def)
qed

lemma str_of_nat_not_Nil: "str_of_nat n \<noteq> []"
  by (subst str_of_nat.simps) simp

lemma str_of_nat_inj: "str_of_nat n = str_of_nat m \<Longrightarrow> n = m"
proof (induction n arbitrary: m rule: str_of_nat.induct)
  case (1 n)
  show ?case
  proof (cases "n < 10")
    case n: True
    show ?thesis
    proof (cases "m < 10")
      case True
      with n "1.prems" show ?thesis
        by (simp add: str_of_nat.simps [of n] str_of_nat.simps [of m] digit_char_inj)
    next
      case False
      with n "1.prems" str_of_nat_not_Nil [of "m div 10"] show ?thesis
        by (simp add: str_of_nat.simps [of n] str_of_nat.simps [of m])
    qed
  next
    case n: False
    show ?thesis
    proof (cases "m < 10")
      case True
      with n "1.prems" str_of_nat_not_Nil [of "n div 10"] show ?thesis
        by (simp add: str_of_nat.simps [of n] str_of_nat.simps [of m])
    next
      case False
      with n "1.prems" have s: "str_of_nat (n div 10) = str_of_nat (m div 10)"
        and d: "digit_char (n mod 10) = digit_char (m mod 10)"
        by (simp_all add: str_of_nat.simps [of n] str_of_nat.simps [of m])
      from "1.IH" [OF n s] have "n div 10 = m div 10" .
      moreover from d have "n mod 10 = m mod 10" by (intro digit_char_inj) simp_all
      ultimately show ?thesis by (metis div_mult_mod_eq)
    qed
  qed
qed

lemma model_key_inj: "model_key i = model_key j \<Longrightarrow> i = j"
  by (simp add: model_key_def str_of_nat_inj)

lemma model_key_0: "model_key 0 = ''model0''"
  by (simp add: model_key_def str_of_nat.simps digit_char_def)

lemma model_key_1: "model_key (Suc 0) = ''model1''"
  by (simp add: model_key_def str_of_nat.simps digit_char_def)

subsection \<open>Saving and loading stage by stage\<close>

text \<open>
  The saving loop over wrapped modules writes the entry of every stage and leaves every
  other key as it was.
\<close>

lemma save_loop_wrapped:
  assumes "\<forall>m \<in> set ms. \<exists>ps. m = Float16Module ps"
  shows "\<exists>ck' vr'. save_loop f i ms ck vr = (None, ck', vr')
           \<and> (\<forall>j<length ms. ck' (model_key (i + j))
                  = Some (f (Some (i + j)) (CLIPModel (named_parameters (ms ! j)))))
           \<and> (\<forall>k. (\<forall>j<length ms. k \<noteq> model_key (i + j)) \<longrightarrow> ck' k = ck k)"
  using assms
proof (induction ms arbitrary: i ck vr)
  case Nil
  then show ?case by simp
next
  case (Cons m ms)
  from Cons.prems obtain ps where m: "m = Float16Module ps" by auto
  let ?ck = "ck(model_key i \<mapsto> f (Some i) (CLIPModel ps))"
  from Cons.prems have w: "\<forall>m \<in> set ms. \<exists>ps. m = Float16Module ps" by simp
  from Cons.IH [OF w, of "Suc i" ?ck "Some i"] obtain ck' vr' where
    r: "save_loop f (Suc i) ms ?ck (Some i) = (None, ck', vr')"
    and new: "\<forall>j<length ms. ck' (model_key (Suc i + j))
                  = Some (f (Some (Suc i + j)) (CLIPModel (named_parameters (ms ! j))))"
    and old: "\<forall>k. (\<forall>j<length ms. k \<noteq> model_key (Suc i + j)) \<longrightarrow> ck' k = ?ck k"
    by blast
  have res: "save_loop f i (m # ms) ck vr = (None, ck', vr')"
    using r by (simp add: m)
  have here: "ck' (model_key i) = Some (f (Some i) (CLIPModel ps))"
  proof -
    have "\<forall>j<length ms. model_key i \<noteq> model_key (Suc i + j)"
      by (auto dest: model_key_inj)
    with old have "ck' (model_key i) = ?ck (model_key i)" by blast
    then show ?thesis by simp
  qed
  have n: "\<forall>j<length (m # ms). ck' (model_key (i + j))
                  = Some (f (Some (i + j)) (CLIPModel (named_parameters ((m # ms) ! j))))"
  proof (intro allI impI)
    fix j assume j: "j < length (m # ms)"
    show "ck' (model_key (i + j))
            = Some (f (Some (i + j)) (CLIPModel (named_parameters ((m # ms) ! j))))"
    proof (cases j)
      case 0
      with here m show ?thesis by simp
    next
      case (Suc j')
      with j new show ?thesis by simp
    qed
  qed
  have o: "\<forall>k. (\<forall>j<length (m # ms). k \<noteq> model_key (i + j)) \<longrightarrow> ck' k = ck k"
  proof (intro allI impI)
    fix k assume k: "\<forall>j<length (m # ms). k \<noteq> model_key (i + j)"
    then have k0: "k \<noteq> model_key i" by force
    from k have "\<forall>j<length ms. k \<noteq> model_key (Suc i + j)" by force
    with old have "ck' k = ?ck k" by blast
    with k0 show "ck' k = ck k" by simp
  qed
  from res n o show ?case by blast
qed

text \<open>
  The loading loop: it succeeds when every stage has an entry that its module accepts in
  strict mode, and it stops at the first stage that has none, leaving the stages before it
  loaded and the others as they were.
\<close>

lemma load_loop_length:
  "load_loop ck i ms vr = (e, ms', vr') \<Longrightarrow> length ms' = length ms"
proof (induction ms arbitrary: i vr e ms' vr')
  case Nil
  then show ?case by simp
next
  case (Cons m ms)
  then show ?case
    by (auto split: sum.splits option.splits prod.splits)
qed




text \<open>
  The stage modules are wrapped: under \<^verbatim>\<open>megatron_amp_O2\<close> the constructor wraps every
  stage in \<^verbatim>\<open>Float16Module\<close>, so the hooks find the attribute \<^verbatim>\<open>.module\<close>.
\<close>

lemma init_stages_wrapped:
  assumes "init have_apex wda built c tr = Inr self" and "megatron_amp_o2 self"
    and "model self = Stages ms"
  shows "\<forall>m \<in> set ms. \<exists>ps. m = Float16Module ps"
proof -
  from assms(1) obtain m0 dt where
    self: "self = \<lparr>cfg = c, megatron_amp_o2 = cfg_get (megatron_amp_O2 c) False,
                   with_distributed_adam = wda,
                   model = convert_model (cfg_get (megatron_amp_O2 c) False) m0,
                   autocast_dtype = dt\<rparr>"
    by (auto simp: init_def Let_def split: if_splits sum.splits)
  with assms(2,3) have "convert_model True m0 = Stages ms" by simp
  then show ?thesis
    by (cases m0) (auto simp: convert_model_def)
qed

text \<open>
  C9. With a list of (wrapped) stage modules, saving returns without error, the checkpoint
  holds for every stage \<open>i\<close> below the number of stages the entry \<^verbatim>\<open>model{i}\<close>, which is the
  state dictionary of stage \<open>i\<close> taken while the active virtual rank is \<open>i\<close>, every other
  key is as before, and the active virtual rank is 0 afterwards. The keys of different
  stages differ, so there is exactly one entry per stage. With a single module, saving
  and loading change nothing.
\<close>

theorem on_save_checkpoint_layout:
  "(model self = Stages ms \<and> (\<forall>m \<in> set ms. \<exists>ps. m = Float16Module ps) \<longrightarrow>
      (\<exists>ck'. on_save_checkpoint f self vr ck = (None, ck', Some 0)
         \<and> (\<forall>i<length ms. ck' (model_key i)
                = Some (f (Some i) (CLIPModel (named_parameters (ms ! i)))))
         \<and> (\<forall>k. (\<forall>i<length ms. k \<noteq> model_key i) \<longrightarrow> ck' k = ck k)))
   \<and> (\<forall>i j. model_key i = model_key j \<longrightarrow> i = j)
   \<and> (model self = Single m \<longrightarrow>
        on_save_checkpoint f self vr ck = (None, ck, vr)
        \<and> on_load_checkpoint self vr ck = (None, self, vr))"
proof (intro conjI impI allI)
  assume h: "model self = Stages ms \<and> (\<forall>m \<in> set ms. \<exists>ps. m = Float16Module ps)"
  then have w: "\<forall>m \<in> set ms. \<exists>ps. m = Float16Module ps" by simp
  from save_loop_wrapped [OF w, of f 0 ck vr] obtain ck' vr' where
    r: "save_loop f 0 ms ck vr = (None, ck', vr')"
    and new: "\<forall>j<length ms. ck' (model_key j)
                = Some (f (Some j) (CLIPModel (named_parameters (ms ! j))))"
    and old: "\<forall>k. (\<forall>j<length ms. k \<noteq> model_key j) \<longrightarrow> ck' k = ck k"
    by auto
  from h r have "on_save_checkpoint f self vr ck = (None, ck', Some 0)"
    by (simp add: on_save_checkpoint_def)
  with new old show "\<exists>ck'. on_save_checkpoint f self vr ck = (None, ck', Some 0)
         \<and> (\<forall>i<length ms. ck' (model_key i)
                = Some (f (Some i) (CLIPModel (named_parameters (ms ! i)))))
         \<and> (\<forall>k. (\<forall>i<length ms. k \<noteq> model_key i) \<longrightarrow> ck' k = ck k)"
    by blast
next
  fix i j assume "model_key i = model_key j"
  then show "i = j" by (rule model_key_inj)
next
  assume "model self = Single m"
  then show "on_save_checkpoint f self vr ck = (None, ck, vr)"
    by (simp add: on_save_checkpoint_def)
next
  assume "model self = Single m"
  then show "on_load_checkpoint self vr ck = (None, self, vr)"
    by (simp add: on_load_checkpoint_def)
qed

theorem on_save_checkpoint_layout_witness:
  "(\<exists>ck'. on_save_checkpoint example_state_dict example_staged None (example_checkpoint 0)
            = (None, ck', Some 0)
      \<and> ck' ''model0'' = Some [(''ln.weight'', [0]), (''fc.weight'', [0])]
      \<and> ck' ''model1'' = Some [(''ln.bias'', [0])]
      \<and> ck' ''model2'' = None)
   \<and> on_save_checkpoint example_state_dict
        (example_self (example_cfg None None None None None) False False) None
        (example_checkpoint 0)
       = (None, example_checkpoint 0, None)
   \<and> on_load_checkpoint (example_self (example_cfg None None None None None) False False)
        None (example_checkpoint 3)
       = (None, example_self (example_cfg None None None None None) False False, None)"
proof -
  let ?single = "example_self (example_cfg None None None None None) False False"
  have h: "model example_staged = Stages example_stages
     \<and> (\<forall>m \<in> set example_stages. \<exists>ps. m = Float16Module ps)"
    by (simp add: example_staged_def example_stages_def)
  note inst = on_save_checkpoint_layout
    [of example_staged example_stages example_state_dict None "example_checkpoint 0"]
  from inst [THEN conjunct1, THEN mp, OF h] obtain ck' where
    r: "on_save_checkpoint example_state_dict example_staged None (example_checkpoint 0)
            = (None, ck', Some 0)"
    and new: "\<forall>i<length example_stages. ck' (model_key i)
       = Some (example_state_dict (Some i) (CLIPModel (named_parameters (example_stages ! i))))"
    and old: "\<forall>k. (\<forall>i<length example_stages. k \<noteq> model_key i)
       \<longrightarrow> ck' k = example_checkpoint 0 k"
    by blast
  from new [rule_format, of 0]
  have k0: "ck' ''model0'' = Some [(''ln.weight'', [0]), (''fc.weight'', [0])]"
    by (simp add: model_key_0 example_stages_def example_state_dict_def example_param_def)
  from new [rule_format, of "Suc 0"]
  have k1: "ck' ''model1'' = Some [(''ln.bias'', [0])]"
    by (simp add: model_key_1 example_stages_def example_state_dict_def example_param_def)
  have "\<forall>i<length example_stages. ''model2'' \<noteq> model_key i"
    by (simp add: example_stages_def less_Suc_eq model_key_0 model_key_1)
  with old have k2: "ck' ''model2'' = None"
    by (simp add: example_checkpoint_def)
  have p1: "\<exists>ck'. on_save_checkpoint example_state_dict example_staged None (example_checkpoint 0)
            = (None, ck', Some 0)
      \<and> ck' ''model0'' = Some [(''ln.weight'', [0]), (''fc.weight'', [0])]
      \<and> ck' ''model1'' = Some [(''ln.bias'', [0])]
      \<and> ck' ''model2'' = None"
    by (rule exI [of _ ck']) (intro conjI r k0 k1 k2)
  have s: "model ?single = Single (CLIPModel [])"
    by (simp add: example_self_def)
  note p2 = on_save_checkpoint_layout
    [where self = ?single and m = "CLIPModel []" and f = example_state_dict and vr = None
       and ck = "example_checkpoint 0",
     THEN conjunct2, THEN conjunct2, THEN mp, OF s, THEN conjunct1]
  note p3 = on_save_checkpoint_layout
    [where self = ?single and m = "CLIPModel []" and vr = None
       and ck = "example_checkpoint 3",
     THEN conjunct2, THEN conjunct2, THEN mp, OF s, THEN conjunct2]
  show ?thesis by (intro conjI p1 p2 p3)
qed




end
